theory Spec2Isabelle
  imports Complex_Main
begin

section \<open>Firestore documents and the order collection\<close>

text \<open>
  A stored document is a finite set of named fields holding dynamically typed values.
  The screens inspect them with \<^verbatim>\<open>typeof\<close>, \<^verbatim>\<open>===\<close> and truthiness tests, so the
  values keep their run-time tag. \<open>FServerTimestamp\<close> is the sentinel
  \<^verbatim>\<open>serverTimestamp()\<close> that the store replaces by its clock on a write. A field that
  is absent from the map reads as \<^verbatim>\<open>undefined\<close>.

  A number is a JavaScript number, that is an IEEE double: a finite value, which is a
  rational, one of the two infinities, or NaN. The two zeros are one value here; the
  code never divides by a zero and never looks at its sign. Comparisons and truthiness
  of doubles are exact and are defined below. Arithmetic on doubles rounds; it is not
  defined here but taken from the platform (see \<open>platform\<close>).

  An instant (\<^verbatim>\<open>Timestamp\<close>) is an integer count of time units from the epoch; it is
  negative before 1970.
\<close>

datatype jsnum = Fin rat | PosInf | NegInf | NaN

text \<open>\<^verbatim>\<open>!x\<close>, \<^verbatim>\<open>x > 0\<close>, \<^verbatim>\<open>x <= 0\<close> and \<^verbatim>\<open>x || 0\<close> for a number \<open>x\<close>.\<close>

fun falsy :: "jsnum \<Rightarrow> bool" where
  "falsy (Fin r) = (r = 0)"
| "falsy NaN = True"
| "falsy PosInf = False"
| "falsy NegInf = False"

fun positive :: "jsnum \<Rightarrow> bool" where
  "positive (Fin r) = (r > 0)"
| "positive PosInf = True"
| "positive NegInf = False"
| "positive NaN = False"

fun nonPositive :: "jsnum \<Rightarrow> bool" where
  "nonPositive (Fin r) = (r \<le> 0)"
| "nonPositive NegInf = True"
| "nonPositive PosInf = False"
| "nonPositive NaN = False"

definition orZero :: "jsnum \<Rightarrow> jsnum" where
  "orZero x = (if falsy x then Fin 0 else x)"

datatype fval = FNull | FBool bool | FNum jsnum | FStr string | FTime int | FServerTimestamp

type_synonym doc = "string \<rightharpoonup> fval"

type_synonym payload = "(string \<times> fval) list"

text \<open>\<^verbatim>\<open>export type OrderStatus\<close> and \<^verbatim>\<open>export type UserRole\<close>.\<close>

datatype OrderStatus = PENDING | CONFIRMED | OUT_FOR_DELIVERY | DELIVERED | CANCELLED

datatype UserRole = OWNER | DRIVER

fun statusName :: "OrderStatus \<Rightarrow> string" where
  "statusName PENDING = ''PENDING''"
| "statusName CONFIRMED = ''CONFIRMED''"
| "statusName OUT_FOR_DELIVERY = ''OUT_FOR_DELIVERY''"
| "statusName DELIVERED = ''DELIVERED''"
| "statusName CANCELLED = ''CANCELLED''"

definition parseStatus :: "string \<Rightarrow> OrderStatus option" where
  "parseStatus s =
     (if s = ''PENDING'' then Some PENDING
      else if s = ''CONFIRMED'' then Some CONFIRMED
      else if s = ''OUT_FOR_DELIVERY'' then Some OUT_FOR_DELIVERY
      else if s = ''DELIVERED'' then Some DELIVERED
      else if s = ''CANCELLED'' then Some CANCELLED
      else None)"

fun roleName :: "UserRole \<Rightarrow> string" where
  "roleName OWNER = ''OWNER''"
| "roleName DRIVER = ''DRIVER''"

text \<open>
  The client-side \<^verbatim>\<open>Order\<close> type. The field \<^verbatim>\<open>id\<close> is called \<open>oid\<close> here.
  \<open>None\<close> stands for \<^verbatim>\<open>null\<close> and \<^verbatim>\<open>undefined\<close> alike: the code only tests these fields
  with \<^verbatim>\<open>??\<close>, \<^verbatim>\<open>!\<close> and \<^verbatim>\<open>===\<close> against a string literal, which do not tell the two apart.
\<close>

record Order =
  oid :: string
  customerUid :: "string option"
  customerName :: "string option"
  customerPhone :: "string option"
  address :: "string option"
  landmark :: "string option"
  waterType :: "string option"
  liters :: "jsnum option"
  paymentMethod :: "string option"
  scheduleType :: "string option"
  scheduledFor :: "int option"
  status :: "OrderStatus option"
  createdAt :: "int option"
  updatedAt :: "int option"
  assignedDriverUid :: "string option"
  assignedDriverName :: "string option"

definition strField :: "doc \<Rightarrow> string \<Rightarrow> string option" where
  "strField data k = (case data k of Some (FStr s) \<Rightarrow> Some s | _ \<Rightarrow> None)"

definition numField :: "doc \<Rightarrow> string \<Rightarrow> jsnum option" where
  "numField data k = (case data k of Some (FNum n) \<Rightarrow> Some n | _ \<Rightarrow> None)"

definition timeField :: "doc \<Rightarrow> string \<Rightarrow> int option" where
  "timeField data k = (case data k of Some (FTime t) \<Rightarrow> Some t | _ \<Rightarrow> None)"

text \<open>
  The stored status as the screens compare it: a string that is one of the five names.
  Any other stored value fails every \<^verbatim>\<open>=== "..."\<close> test of the code, like \<^verbatim>\<open>undefined\<close>.
\<close>

definition docStatus :: "doc \<Rightarrow> OrderStatus option" where
  "docStatus data = (case data ''status'' of Some (FStr s) \<Rightarrow> parseStatus s | _ \<Rightarrow> None)"

text \<open>
  The mapping \<^verbatim>\<open>snapshot.docs.map((docSnapshot) => ({ id: docSnapshot.id, ... }) as Order)\<close>
  that every screen applies to a query snapshot.
\<close>

definition toOrder :: "string \<Rightarrow> doc \<Rightarrow> Order" where
  "toOrder i data =
     \<lparr> oid = i,
       customerUid = strField data ''customerUid'',
       customerName = strField data ''customerName'',
       customerPhone = strField data ''customerPhone'',
       address = strField data ''address'',
       landmark = strField data ''landmark'',
       waterType = strField data ''waterType'',
       liters = numField data ''liters'',
       paymentMethod = strField data ''paymentMethod'',
       scheduleType = strField data ''scheduleType'',
       scheduledFor = timeField data ''scheduledFor'',
       status = docStatus data,
       createdAt = timeField data ''createdAt'',
       updatedAt = timeField data ''updatedAt'',
       assignedDriverUid = strField data ''assignedDriverUid'',
       assignedDriverName = strField data ''assignedDriverName'' \<rparr>"

text \<open>
  The store side. \<open>orders\<close> is the collection \<^verbatim>\<open>orders\<close>; \<open>calls\<close> records every write
  request the screens issue, in order. \<open>updateDoc\<close> merges the given fields into an
  existing document and fails on a missing one; \<open>addDoc\<close> creates a document under the
  identifier the store hands out. The store's clock \<open>now\<close> and the fresh identifier are
  inputs of the model. Transport failures are outside the model.
\<close>

datatype call = AddDoc string payload | UpdateDoc string string payload

record world =
  orders :: "string \<rightharpoonup> doc"
  calls :: "call list"

definition resolve :: "int \<Rightarrow> fval \<Rightarrow> fval" where
  "resolve now v = (case v of FServerTimestamp \<Rightarrow> FTime now | _ \<Rightarrow> v)"

definition written :: "int \<Rightarrow> payload \<Rightarrow> doc" where
  "written now p = map_of (map (\<lambda>(k, v). (k, resolve now v)) p)"

definition notFoundMessage :: "string \<Rightarrow> string" where
  "notFoundMessage i = ''No document to update: orders/'' @ i"

definition updateDoc :: "int \<Rightarrow> string \<Rightarrow> payload \<Rightarrow> world \<Rightarrow> string option \<times> world" where
  "updateDoc now i p w =
     (let w' = w\<lparr>calls := calls w @ [UpdateDoc ''orders'' i p]\<rparr> in
      case orders w i of
        None \<Rightarrow> (Some (notFoundMessage i), w')
      | Some d \<Rightarrow> (None, w'\<lparr>orders := (orders w)(i \<mapsto> d ++ written now p)\<rparr>))"

definition addDoc :: "int \<Rightarrow> string \<Rightarrow> payload \<Rightarrow> world \<Rightarrow> string \<times> world" where
  "addDoc now newId p w =
     (newId, w\<lparr>orders := (orders w)(newId \<mapsto> written now p),
               calls := calls w @ [AddDoc ''orders'' p]\<rparr>)"

section \<open>Role resolution\<close>

text \<open>
  \<^verbatim>\<open>getUserRole(uid)\<close> reads the document \<^verbatim>\<open>users/uid\<close>. The collection is passed as a map;
  \<open>None\<close> is a snapshot for which \<^verbatim>\<open>exists()\<close> is false.
\<close>

definition getUserRole :: "(string \<rightharpoonup> doc) \<Rightarrow> string \<Rightarrow> UserRole option" where
  "getUserRole users uid =
     (case users uid of
        None \<Rightarrow> None
      | Some data \<Rightarrow>
          if data ''isActive'' = Some (FBool False) then None
          else (case data ''role'' of
                  Some (FStr role) \<Rightarrow>
                    if role = ''OWNER'' then Some OWNER
                    else if role = ''DRIVER'' then Some DRIVER
                    else None
                | _ \<Rightarrow> None))"

section \<open>The driver screen\<close>

text \<open>
  The signed-in principal as the identity provider reports it (\<^verbatim>\<open>user.uid\<close>,
  \<^verbatim>\<open>user.displayName\<close>). \<open>truthy\<close> is JavaScript truthiness of a string that may be
  \<^verbatim>\<open>null\<close> or \<^verbatim>\<open>undefined\<close>: the empty string is falsy.
\<close>

record User =
  userUid :: string
  displayName :: "string option"

definition truthy :: "string option \<Rightarrow> bool" where
  "truthy s = (case s of None \<Rightarrow> False | Some x \<Rightarrow> x \<noteq> [])"

text \<open>\<^verbatim>\<open>order.assignedDriverName ?? user?.displayName ?? "Driver"\<close>\<close>

definition claimName :: "User option \<Rightarrow> Order \<Rightarrow> string" where
  "claimName user order =
     (case assignedDriverName order of
        Some n \<Rightarrow> n
      | None \<Rightarrow>
          (case user of
             None \<Rightarrow> ''Driver''
           | Some u \<Rightarrow> (case displayName u of Some n \<Rightarrow> n | None \<Rightarrow> ''Driver'')))"

text \<open>
  \<^verbatim>\<open>updateStatus(order, status)\<close> of the driver screen. The result is the action message
  shown afterwards and the store after the call. \<open>order\<close> is the object of the last
  snapshot that the card was rendered from; the store is not read again.
\<close>

definition driver_updateStatus ::
  "User option \<Rightarrow> int \<Rightarrow> Order \<Rightarrow> OrderStatus \<Rightarrow> world \<Rightarrow> string option \<times> world" where
  "driver_updateStatus user now order st w =
     (let driverUid = map_option userUid user;
          current = status order
      in if st = OUT_FOR_DELIVERY \<and> current \<noteq> Some CONFIRMED then
           (Some ''This delivery is no longer in the confirmed stage.'', w)
         else if st = DELIVERED \<and> current \<noteq> Some OUT_FOR_DELIVERY then
           (Some ''This delivery is not out for delivery yet.'', w)
         else
           let payload =
                 [(''status'', FStr (statusName st)), (''updatedAt'', FServerTimestamp)] @
                 (case driverUid of
                    None \<Rightarrow> []
                  | Some d \<Rightarrow>
                      if st = OUT_FOR_DELIVERY \<and> \<not> truthy (assignedDriverUid order) \<and> d \<noteq> [] then
                        [(''assignedDriverUid'', FStr d),
                         (''assignedDriverName'', FStr (claimName user order))]
                      else [])
           in (None, snd (updateDoc now (oid order) payload w)))"

text \<open>The buttons of an order card: the target states the driver can ask for.\<close>

definition driverButtons :: "Order \<Rightarrow> OrderStatus list" where
  "driverButtons order =
     (if status order = Some CONFIRMED then [OUT_FOR_DELIVERY] else []) @
     (if status order = Some OUT_FOR_DELIVERY then [DELIVERED] else [])"

section \<open>The owner screen\<close>

record DriverOption =
  uid :: string
  name :: string

record OwnerState =
  drivers :: "DriverOption list"
  driverSelections :: "string \<rightharpoonup> string"
  assigningOrderId :: "string option"
  assignmentMessage :: "string option"

text \<open>\<^verbatim>\<open>updateStatus(orderId, status)\<close> of the owner screen: it is given the identifier only.\<close>

definition owner_updateStatus :: "int \<Rightarrow> string \<Rightarrow> OrderStatus \<Rightarrow> world \<Rightarrow> world" where
  "owner_updateStatus now orderId st w =
     snd (updateDoc now orderId
            [(''status'', FStr (statusName st)), (''updatedAt'', FServerTimestamp)] w)"

definition handleAssignDriver :: "int \<Rightarrow> Order \<Rightarrow> OwnerState \<Rightarrow> world \<Rightarrow> OwnerState \<times> world" where
  "handleAssignDriver now order s w =
     (case driverSelections s (oid order) of
        None \<Rightarrow> (s, w)
      | Some selectedUid \<Rightarrow>
          if selectedUid = [] then (s, w)
          else
            let driver = find (\<lambda>item. uid item = selectedUid) (drivers s);
                r = updateDoc now (oid order)
                      [(''assignedDriverUid'', FStr selectedUid),
                       (''assignedDriverName'',
                          FStr (case driver of Some d \<Rightarrow> name d | None \<Rightarrow> ''Driver'')),
                       (''updatedAt'', FServerTimestamp)] w
            in (s\<lparr>assigningOrderId := None,
                   assignmentMessage :=
                     (case fst r of
                        None \<Rightarrow> Some ''Driver assignment saved.''
                      | Some m \<Rightarrow> Some m)\<rparr>,
                snd r))"

text \<open>What an order card of the owner screen renders.\<close>

definition canAssign :: "Order \<Rightarrow> bool" where
  "canAssign order = (status order = Some PENDING \<or> status order = Some CONFIRMED)"

definition ownerButtons :: "Order \<Rightarrow> OrderStatus list" where
  "ownerButtons order =
     (if status order = Some PENDING then [CONFIRMED, CANCELLED] else []) @
     (if status order = Some CONFIRMED then [PENDING, CANCELLED] else [])"

section \<open>The operations the screens offer on an order\<close>

datatype action = OwnerStatus OrderStatus | OwnerAssign | DriverStatus OrderStatus

text \<open>
  \<open>offered\<close> is the rendering condition of the control that triggers the action
  (for the assignment: the block is rendered when \<open>canAssign\<close>, and the button is
  disabled while an assignment of this order is running or no driver is selected).
  \<open>perform\<close> is the handler the control calls.
\<close>

definition offered :: "OwnerState \<Rightarrow> Order \<Rightarrow> action \<Rightarrow> bool" where
  "offered s order a =
     (case a of
        OwnerStatus st \<Rightarrow> st \<in> set (ownerButtons order)
      | OwnerAssign \<Rightarrow>
          canAssign order \<and> assigningOrderId s \<noteq> Some (oid order) \<and>
          truthy (driverSelections s (oid order))
      | DriverStatus st \<Rightarrow> st \<in> set (driverButtons order))"



section \<open>The platform\<close>

text \<open>
  Built-in functions of the JavaScript platform and of the store's client library that
  the screens call. They are not code of this repository and are parameters here:
  \<open>strTrim\<close> is \<^verbatim>\<open>String.prototype.trim\<close>; \<open>strToNumber\<close> is \<^verbatim>\<open>Number\<close> applied to a string;
  \<open>timestampFromDate y m d h mi\<close> is \<^verbatim>\<open>Timestamp.fromDate(new Date(y, m, d, h, mi))\<close>,
  which is \<open>None\<close> when the call throws; \<open>numAdd\<close>, \<open>numSub\<close>, \<open>numMul\<close> and \<open>numDiv\<close>
  are \<^verbatim>\<open>+\<close>, \<^verbatim>\<open>-\<close>, \<^verbatim>\<open>*\<close> and \<^verbatim>\<open>/\<close> on numbers, with the rounding, the
  overflow and the NaN rules of IEEE doubles.
\<close>

record platform =
  strTrim :: "string \<Rightarrow> string"
  strToNumber :: "string \<Rightarrow> jsnum"
  timestampFromDate :: "jsnum \<Rightarrow> jsnum \<Rightarrow> jsnum \<Rightarrow> jsnum \<Rightarrow> jsnum \<Rightarrow> int option"
  numAdd :: "jsnum \<Rightarrow> jsnum \<Rightarrow> jsnum"
  numSub :: "jsnum \<Rightarrow> jsnum \<Rightarrow> jsnum"
  numMul :: "jsnum \<Rightarrow> jsnum \<Rightarrow> jsnum"
  numDiv :: "jsnum \<Rightarrow> jsnum \<Rightarrow> jsnum"

text \<open>
  What is known of double arithmetic without fixing it: an operation on two doubles
  whose exact result is a double returns that result. \<open>representable\<close> picks out
  rationals that certainly are doubles: an integer of magnitude at most \<open>2 ^ 53\<close>
  divided by \<open>2 ^ 20\<close>.
\<close>

definition representable :: "rat \<Rightarrow> bool" where
  "representable x =
     (x * 2 ^ 20 = of_int \<lfloor>x * 2 ^ 20\<rfloor> \<and> \<bar>\<lfloor>x * 2 ^ 20\<rfloor>\<bar> \<le> 2 ^ 53)"

definition exactArithmetic :: "platform \<Rightarrow> bool" where
  "exactArithmetic pf =
     (\<forall>x y. representable x \<and> representable y \<longrightarrow>
        (representable (x + y) \<longrightarrow> numAdd pf (Fin x) (Fin y) = Fin (x + y)) \<and>
        (representable (x * y) \<longrightarrow> numMul pf (Fin x) (Fin y) = Fin (x * y)) \<and>
        (y \<noteq> 0 \<and> representable (x / y) \<longrightarrow> numDiv pf (Fin x) (Fin y) = Fin (x / y)))"

section \<open>The customer screen\<close>

datatype WaterType = refill | bottles

datatype PaymentMethod = cash | eft

datatype ScheduleType = asap | later

fun waterTypeName :: "WaterType \<Rightarrow> string" where
  "waterTypeName refill = ''refill''"
| "waterTypeName bottles = ''bottles''"

fun paymentMethodName :: "PaymentMethod \<Rightarrow> string" where
  "paymentMethodName cash = ''cash''"
| "paymentMethodName eft = ''eft''"

fun scheduleTypeName :: "ScheduleType \<Rightarrow> string" where
  "scheduleTypeName asap = ''asap''"
| "scheduleTypeName later = ''later''"

text \<open>
  The state variables of the customer screen that \<^verbatim>\<open>handleSubmit\<close> reads or sets. The
  form fields carry the prefix \<open>form_\<close> (\<open>form_liters\<close> is the state variable
  \<^verbatim>\<open>liters\<close>, and so on), since the \<open>Order\<close> record already uses the plain names.
\<close>

record CustomerState =
  authUser :: "User option"
  form_waterType :: WaterType
  form_liters :: jsnum
  form_scheduleType :: ScheduleType
  form_scheduledDate :: string
  form_scheduledTime :: string
  form_customerName :: string
  form_customerPhone :: string
  form_address :: string
  form_landmark :: string
  form_paymentMethod :: PaymentMethod
  isSubmitting :: bool
  submitError :: "string option"
  orderId :: "string option"

text \<open>\<^verbatim>\<open>s.split(c)\<close> for a one-character separator.\<close>

fun splitOn :: "char \<Rightarrow> string \<Rightarrow> string list" where
  "splitOn c [] = [[]]"
| "splitOn c (x # xs) =
     (if x = c then [] # splitOn c xs
      else (case splitOn c xs of [] \<Rightarrow> [[x]] | p # ps \<Rightarrow> (x # p) # ps))"

text \<open>
  An element of a destructured array of numbers is \<open>None\<close> (\<^verbatim>\<open>undefined\<close>) when the
  array is too short. \<open>falsyElem\<close> is \<^verbatim>\<open>!x\<close> and \<open>elemOrZero\<close> is \<^verbatim>\<open>x || 0\<close> on such an
  element.
\<close>

definition elemAt :: "jsnum list \<Rightarrow> nat \<Rightarrow> jsnum option" where
  "elemAt xs n = (if n < length xs then Some (xs ! n) else None)"

definition falsyElem :: "jsnum option \<Rightarrow> bool" where
  "falsyElem x = (case x of None \<Rightarrow> True | Some v \<Rightarrow> falsy v)"

definition elemOrZero :: "jsnum option \<Rightarrow> jsnum" where
  "elemOrZero x = (case x of None \<Rightarrow> Fin 0 | Some v \<Rightarrow> orZero v)"

text \<open>
  The memoised value \<^verbatim>\<open>scheduledTimestamp\<close>, computed while the screen renders. It is
  \<^verbatim>\<open>null\<close> or an instant; when \<^verbatim>\<open>Timestamp.fromDate\<close> throws (an instant outside the
  range the store accepts) the render fails and there is no value.
\<close>

datatype memo = MemoThrows | MemoValue "int option"

definition scheduledTimestamp :: "platform \<Rightarrow> CustomerState \<Rightarrow> memo" where
  "scheduledTimestamp pf s =
     (if form_scheduleType s = asap then MemoValue None
      else if form_scheduledDate s = [] \<or> form_scheduledTime s = [] then MemoValue None
      else
        let ds = map (strToNumber pf) (splitOn CHR ''-'' (form_scheduledDate s));
            ts = map (strToNumber pf) (splitOn CHR '':'' (form_scheduledTime s));
            year = elemAt ds 0; month = elemAt ds 1; day = elemAt ds 2;
            hour = elemAt ts 0; minute = elemAt ts 1
        in if falsyElem year \<or> falsyElem month \<or> falsyElem day then MemoValue None
           else
             (case (year, month, day) of
                (Some y, Some m, Some d) \<Rightarrow>
                  (case timestampFromDate pf y (numSub pf m (Fin 1)) d
                          (elemOrZero hour) (elemOrZero minute) of
                     None \<Rightarrow> MemoThrows
                   | Some t \<Rightarrow> MemoValue (Some t))
              | _ \<Rightarrow> MemoValue None))"

text \<open>The object literal passed to \<^verbatim>\<open>addDoc\<close>.\<close>

definition orderPayload :: "platform \<Rightarrow> User \<Rightarrow> int option \<Rightarrow> CustomerState \<Rightarrow> payload" where
  "orderPayload pf u ts s =
     [(''customerUid'', FStr (userUid u)),
      (''customerName'', FStr (strTrim pf (form_customerName s))),
      (''customerPhone'', FStr (strTrim pf (form_customerPhone s))),
      (''address'', FStr (strTrim pf (form_address s))),
      (''landmark'', FStr (strTrim pf (form_landmark s))),
      (''waterType'', FStr (waterTypeName (form_waterType s))),
      (''liters'', FNum (form_liters s)),
      (''paymentMethod'', FStr (paymentMethodName (form_paymentMethod s))),
      (''scheduleType'', FStr (scheduleTypeName (form_scheduleType s))),
      (''scheduledFor'', (case ts of None \<Rightarrow> FNull | Some t \<Rightarrow> FTime t)),
      (''status'', FStr ''PENDING''),
      (''assignedDriverUid'', FNull),
      (''assignedDriverName'', FNull),
      (''createdAt'', FServerTimestamp),
      (''updatedAt'', FServerTimestamp)]"

text \<open>
  \<^verbatim>\<open>handleSubmit\<close>. The argument \<open>ts\<close> is the value of the memo \<^verbatim>\<open>scheduledTimestamp\<close>
  that the handler closes over: the handler exists only on a screen that rendered.
\<close>

definition handleSubmit ::
  "platform \<Rightarrow> int \<Rightarrow> string \<Rightarrow> int option \<Rightarrow> CustomerState \<Rightarrow> world \<Rightarrow> CustomerState \<times> world" where
  "handleSubmit pf now newId ts s0 w =
     (let s = s0\<lparr>submitError := None\<rparr> in
      case authUser s of
        None \<Rightarrow> (s\<lparr>submitError := Some ''Signing you in. Please try again in a moment.''\<rparr>, w)
      | Some u \<Rightarrow>
          if strTrim pf (form_customerName s) = [] \<or> strTrim pf (form_customerPhone s) = [] \<or>
             strTrim pf (form_address s) = [] then
            (s\<lparr>submitError := Some ''Please complete your name, phone, and address.''\<rparr>, w)
          else if falsy (form_liters s) \<or> nonPositive (form_liters s) then
            (s\<lparr>submitError := Some ''Please choose a valid liters amount.''\<rparr>, w)
          else if form_scheduleType s = later \<and> ts = None then
            (s\<lparr>submitError := Some ''Please select a delivery date and time.''\<rparr>, w)
          else
            let r = addDoc now newId (orderPayload pf u ts s) w
            in (s\<lparr>orderId := Some (fst r), isSubmitting := False\<rparr>, snd r))"

section \<open>The owner dashboard\<close>

text \<open>
  \<^verbatim>\<open>DashboardMetrics\<close>; the field \<^verbatim>\<open>liters\<close> is called \<open>totalLiters\<close> here. The counters
  start at zero and grow by one per document, which is exact in doubles for any
  snapshot a client can hold, so they are natural numbers. The litre sums are doubles.
\<close>

record DashboardMetrics =
  total :: nat
  totalLiters :: jsnum
  byStatus :: "OrderStatus \<Rightarrow> nat"
  deliveredOrders :: nat
  deliveredLiters :: jsnum

definition createEmptyMetrics :: DashboardMetrics where
  "createEmptyMetrics =
     \<lparr> total = 0, totalLiters = Fin 0, byStatus = (\<lambda>_. 0), deliveredOrders = 0,
       deliveredLiters = Fin 0 \<rparr>"

text \<open>\<^verbatim>\<open>typeof data.liters === "number" ? data.liters : 0\<close>\<close>

definition docLiters :: "doc \<Rightarrow> jsnum" where
  "docLiters data = (case data ''liters'' of Some (FNum n) \<Rightarrow> n | _ \<Rightarrow> Fin 0)"

text \<open>
  The body of \<^verbatim>\<open>snapshot.forEach\<close> in the dashboard effect, for one document.
  \<^verbatim>\<open>metrics.byStatus[status] !== undefined\<close> holds for the five status names (for a
  string that names an inherited property of the object it holds too, but the assignment
  then touches none of the five counters).
\<close>

definition countOrder :: "platform \<Rightarrow> DashboardMetrics \<Rightarrow> doc \<Rightarrow> DashboardMetrics" where
  "countOrder pf metrics data =
     (let m1 = (case docStatus data of
                  Some st \<Rightarrow> metrics\<lparr>byStatus := (byStatus metrics)(st := byStatus metrics st + 1)\<rparr>
                | None \<Rightarrow> metrics);
          m2 = m1\<lparr>total := total m1 + 1\<rparr>;
          l = docLiters data;
          m3 = m2\<lparr>totalLiters := numAdd pf (totalLiters m2) l\<rparr>
      in if data ''status'' = Some (FStr ''DELIVERED'') then
           m3\<lparr>deliveredOrders := deliveredOrders m3 + 1,
              deliveredLiters := numAdd pf (deliveredLiters m3) l\<rparr>
         else m3)"

text \<open>The snapshot callback: the metrics of the documents of one snapshot, in its order.\<close>

definition todayMetrics :: "platform \<Rightarrow> doc list \<Rightarrow> DashboardMetrics" where
  "todayMetrics pf snapshot = foldl (countOrder pf) createEmptyMetrics snapshot"

text \<open>
  The revenue shown on the dashboard. \<^verbatim>\<open>Number(x) || 0\<close> of a number \<open>x\<close> is \<open>orZero x\<close>.
  The delivered order count enters the product as a number.
\<close>

definition deliveredRevenueToday :: "platform \<Rightarrow> DashboardMetrics \<Rightarrow> jsnum \<Rightarrow> jsnum \<Rightarrow> jsnum" where
  "deliveredRevenueToday pf dashboardMetrics pricePer1000Value deliveryFeeValue =
     (let deliveredOrdersToday = deliveredOrders dashboardMetrics;
          pricePer1000 = orZero pricePer1000Value;
          deliveryFee = orZero deliveryFeeValue
      in if positive pricePer1000 then
           numAdd pf
             (numMul pf (numDiv pf (deliveredLiters dashboardMetrics) (Fin 1000)) pricePer1000)
             (numMul pf deliveryFee (Fin (of_nat deliveredOrdersToday)))
         else Fin 0)"

section \<open>Reachable order collections\<close>

text \<open>
  Everything the three screens can do to the collection, starting from the empty one.
  Here a handler may be called with any order object, any selection and any target
  state, whether or not its control is rendered and whether or not the object is still
  what the store holds.
\<close>

inductive reachable :: "world \<Rightarrow> bool" where
  empty: "reachable \<lparr>orders = Map.empty, calls = []\<rparr>"
| submit: "reachable w \<Longrightarrow> reachable (snd (handleSubmit pf now newId ts s w))"
| owner_status: "reachable w \<Longrightarrow> reachable (owner_updateStatus now i st w)"
| owner_assign: "reachable w \<Longrightarrow> reachable (snd (handleAssignDriver now order os w))"
| driver_status: "reachable w \<Longrightarrow> reachable (snd (driver_updateStatus user now order st w))"

text \<open>
  A field is unset when it is absent or \<^verbatim>\<open>null\<close>. The assignment pair of a document is
  consistent when both of its fields are unset or both are set.
\<close>

definition unset :: "fval option \<Rightarrow> bool" where
  "unset v = (v = None \<or> v = Some FNull)"

definition assignmentConsistent :: "doc \<Rightarrow> bool" where
  "assignmentConsistent d = (unset (d ''assignedDriverUid'') = unset (d ''assignedDriverName''))"

text \<open>Every stored order has a consistent assignment pair.\<close>

definition allConsistent :: "world \<Rightarrow> bool" where
  "allConsistent w = (\<forall>i d. orders w i = Some d \<longrightarrow> assignmentConsistent d)"

section \<open>Sample data\<close>

text \<open>
  Concrete inputs at which the theorems below are instantiated. The sample platform
  stands in for the real one on the sample inputs only: its trim strips the six ASCII
  white space characters, its string-to-number conversion reads strings of decimal
  digits, its date constructor packs the five components into one integer, and its
  arithmetic is exact on finite numbers.
\<close>

definition asciiSpace :: "char \<Rightarrow> bool" where
  "asciiSpace c = (c \<in> set [CHR '' '', CHR 0x09, CHR 0x0A, CHR 0x0B, CHR 0x0C, CHR 0x0D])"

definition asciiTrim :: "string \<Rightarrow> string" where
  "asciiTrim s = rev (dropWhile asciiSpace (rev (dropWhile asciiSpace s)))"

definition digitOf :: "char \<Rightarrow> nat option" where
  "digitOf = map_of [(CHR ''0'', 0), (CHR ''1'', 1), (CHR ''2'', 2), (CHR ''3'', 3), (CHR ''4'', 4),
                     (CHR ''5'', 5), (CHR ''6'', 6), (CHR ''7'', 7), (CHR ''8'', 8), (CHR ''9'', 9)]"

definition digitsNumber :: "string \<Rightarrow> jsnum" where
  "digitsNumber s =
     (if list_all (\<lambda>c. digitOf c \<noteq> None) s then
        Fin (of_nat (foldl (\<lambda>n c. case digitOf c of Some v \<Rightarrow> 10 * n + v | None \<Rightarrow> n) 0 s))
      else NaN)"

fun packedDate :: "jsnum \<Rightarrow> jsnum \<Rightarrow> jsnum \<Rightarrow> jsnum \<Rightarrow> jsnum \<Rightarrow> int option" where
  "packedDate (Fin y) (Fin m) (Fin d) (Fin h) (Fin mi) =
     Some (\<lfloor>y\<rfloor> * 100000000 + \<lfloor>m\<rfloor> * 1000000 + \<lfloor>d\<rfloor> * 10000 + \<lfloor>h\<rfloor> * 100 + \<lfloor>mi\<rfloor>)"
| "packedDate _ _ _ _ _ = None"

fun exactAdd :: "jsnum \<Rightarrow> jsnum \<Rightarrow> jsnum" where
  "exactAdd (Fin x) (Fin y) = Fin (x + y)"
| "exactAdd _ _ = NaN"

fun exactSub :: "jsnum \<Rightarrow> jsnum \<Rightarrow> jsnum" where
  "exactSub (Fin x) (Fin y) = Fin (x - y)"
| "exactSub _ _ = NaN"

fun exactMul :: "jsnum \<Rightarrow> jsnum \<Rightarrow> jsnum" where
  "exactMul (Fin x) (Fin y) = Fin (x * y)"
| "exactMul _ _ = NaN"

fun exactDiv :: "jsnum \<Rightarrow> jsnum \<Rightarrow> jsnum" where
  "exactDiv (Fin x) (Fin y) = (if y = 0 then NaN else Fin (x / y))"
| "exactDiv _ _ = NaN"

definition samplePlatform :: platform where
  "samplePlatform =
     \<lparr>strTrim = asciiTrim, strToNumber = digitsNumber, timestampFromDate = packedDate,
      numAdd = exactAdd, numSub = exactSub, numMul = exactMul, numDiv = exactDiv\<rparr>"

definition sampleUser :: User where
  "sampleUser = \<lparr>userUid = ''drv1'', displayName = Some ''Sipho''\<rparr>"

definition sampleStored :: "OrderStatus \<Rightarrow> fval \<Rightarrow> fval \<Rightarrow> doc" where
  "sampleStored st u n =
     [''customerName'' \<mapsto> FStr ''Thabo'', ''liters'' \<mapsto> FNum (Fin 1000),
      ''status'' \<mapsto> FStr (statusName st), ''assignedDriverUid'' \<mapsto> u,
      ''assignedDriverName'' \<mapsto> n]"

definition sampleWorld :: "doc \<Rightarrow> world" where
  "sampleWorld d = \<lparr>orders = [''o1'' \<mapsto> d], calls = []\<rparr>"


definition sampleOwnerState :: OwnerState where
  "sampleOwnerState =
     \<lparr>drivers = [\<lparr>uid = ''drv1'', name = ''Sipho''\<rparr>],
      driverSelections = [''o1'' \<mapsto> ''drv1''],
      assigningOrderId = None, assignmentMessage = None\<rparr>"

definition sampleForm :: "User option \<Rightarrow> CustomerState" where
  "sampleForm a =
     \<lparr>authUser = a, form_waterType = refill, form_liters = Fin 1000, form_scheduleType = asap,
      form_scheduledDate = [], form_scheduledTime = [], form_customerName = ''Thabo'',
      form_customerPhone = ''0821234567'', form_address = ''12 Main Rd'', form_landmark = [],
      form_paymentMethod = cash, isSubmitting = False, submitError = None, orderId = None\<rparr>"

text \<open>The same form, scheduled for 15 January 2026 at 09:30.\<close>

definition sampleLaterForm :: "User option \<Rightarrow> CustomerState" where
  "sampleLaterForm a =
     (sampleForm a)\<lparr>form_scheduleType := later, form_scheduledDate := ''2026-01-15'',
                    form_scheduledTime := ''09:30''\<rparr>"

definition sampleOrderDoc :: "OrderStatus \<Rightarrow> rat \<Rightarrow> doc" where
  "sampleOrderDoc st l = [''status'' \<mapsto> FStr (statusName st), ''liters'' \<mapsto> FNum (Fin l)]"

definition confirmedUnassigned :: doc where
  "confirmedUnassigned = sampleStored CONFIRMED FNull FNull"





text \<open>Three pending orders of 100, 200 and 50 litres, two delivered ones of 1000 and 500.\<close>

definition sampleSnapshot :: "doc list" where
  "sampleSnapshot =
     [sampleOrderDoc PENDING 100, sampleOrderDoc DELIVERED 1000, sampleOrderDoc PENDING 200,
      sampleOrderDoc DELIVERED 500, sampleOrderDoc PENDING 50]"

section \<open>Properties of role resolution\<close>

text \<open>
  Claim C6. For every principal, \<open>getUserRole\<close> yields no role when the profile document
  does not exist, and when its \<open>isActive\<close> field is the boolean false, whatever the
  stored role is. Otherwise it yields the stored role exactly when that is the string
  OWNER or DRIVER, and no role for any other stored value.
\<close>

theorem getUserRole_resolution:
  "(users p = None \<longrightarrow> getUserRole users p = None) \<and>
   (\<forall>data. users p = Some data \<and> data ''isActive'' = Some (FBool False) \<longrightarrow>
       getUserRole users p = None) \<and>
   (\<forall>data. users p = Some data \<and> data ''isActive'' \<noteq> Some (FBool False) \<longrightarrow>
       getUserRole users p =
         (if data ''role'' = Some (FStr ''OWNER'') then Some OWNER
          else if data ''role'' = Some (FStr ''DRIVER'') then Some DRIVER
          else None))"
  by (auto simp: getUserRole_def split: option.splits fval.splits)

theorem getUserRole_resolution_witness:
  "getUserRole [''u1'' \<mapsto> [''role'' \<mapsto> FStr ''OWNER'', ''isActive'' \<mapsto> FBool False]] ''u1'' = None \<and>
   getUserRole [''u2'' \<mapsto> [''role'' \<mapsto> FStr ''DRIVER'', ''isActive'' \<mapsto> FBool True]] ''u2'' = Some DRIVER \<and>
   getUserRole [''u2'' \<mapsto> [''role'' \<mapsto> FStr ''ADMIN'', ''isActive'' \<mapsto> FBool True]] ''u2'' = None \<and>
   getUserRole Map.empty ''u3'' = None"
proof -
  let ?inactive = "[''role'' \<mapsto> FStr ''OWNER'', ''isActive'' \<mapsto> FBool False]"
  let ?driver = "[''role'' \<mapsto> FStr ''DRIVER'', ''isActive'' \<mapsto> FBool True]"
  let ?admin = "[''role'' \<mapsto> FStr ''ADMIN'', ''isActive'' \<mapsto> FBool True]"
  have a: "getUserRole [''u1'' \<mapsto> ?inactive] ''u1'' = None"
    using getUserRole_resolution [of "[''u1'' \<mapsto> ?inactive]" "''u1''"] by simp
  have b: "getUserRole [''u2'' \<mapsto> ?driver] ''u2'' = Some DRIVER"
    using getUserRole_resolution [of "[''u2'' \<mapsto> ?driver]" "''u2''"] by simp
  have c: "getUserRole [''u2'' \<mapsto> ?admin] ''u2'' = None"
    using getUserRole_resolution [of "[''u2'' \<mapsto> ?admin]" "''u2''"] by simp
  have d: "getUserRole Map.empty ''u3'' = None"
    using getUserRole_resolution [of Map.empty "''u3''"] by simp
  from a b c d show ?thesis by blast
qed

text \<open>
  Claim C10. Only an \<open>isActive\<close> field that is exactly the boolean false denies access:
  a profile whose \<open>isActive\<close> field is missing, or holds anything else, and whose role is
  OWNER or DRIVER resolves to that role.
\<close>

theorem getUserRole_missing_isActive:
  "users p = Some data \<Longrightarrow> data ''isActive'' \<noteq> Some (FBool False) \<Longrightarrow>
   data ''role'' = Some (FStr (roleName r)) \<Longrightarrow> getUserRole users p = Some r"
  by (cases r) (simp_all add: getUserRole_def)

theorem getUserRole_missing_isActive_witness:
  "getUserRole [''u1'' \<mapsto> [''role'' \<mapsto> FStr ''OWNER'']] ''u1'' = Some OWNER \<and>
   getUserRole [''u2'' \<mapsto> [''role'' \<mapsto> FStr ''DRIVER'', ''isActive'' \<mapsto> FNull]] ''u2'' = Some DRIVER \<and>
   getUserRole [''u3'' \<mapsto> [''role'' \<mapsto> FStr ''DRIVER'', ''isActive'' \<mapsto> FStr ''false'']] ''u3'' = Some DRIVER"
proof -
  have a: "getUserRole [''u1'' \<mapsto> [''role'' \<mapsto> FStr ''OWNER'']] ''u1'' = Some OWNER"
    by (rule getUserRole_missing_isActive [where data = "[''role'' \<mapsto> FStr ''OWNER'']"]) simp_all
  have b: "getUserRole [''u2'' \<mapsto> [''role'' \<mapsto> FStr ''DRIVER'', ''isActive'' \<mapsto> FNull]] ''u2'' = Some DRIVER"
    by (rule getUserRole_missing_isActive
          [where data = "[''role'' \<mapsto> FStr ''DRIVER'', ''isActive'' \<mapsto> FNull]"]) simp_all
  have c: "getUserRole [''u3'' \<mapsto> [''role'' \<mapsto> FStr ''DRIVER'', ''isActive'' \<mapsto> FStr ''false'']] ''u3'' = Some DRIVER"
    by (rule getUserRole_missing_isActive
          [where data = "[''role'' \<mapsto> FStr ''DRIVER'', ''isActive'' \<mapsto> FStr ''false'']"]) simp_all
  from a b c show ?thesis by blast
qed

section \<open>Facts about the store\<close>

lemma updateDoc_orders:
  "orders (snd (updateDoc now i p w)) j =
     (if j = i then map_option (\<lambda>d. d ++ written now p) (orders w i) else orders w j)"
  by (simp add: updateDoc_def Let_def split: option.splits)

lemma updateDoc_calls:
  "calls (snd (updateDoc now i p w)) = calls w @ [UpdateDoc ''orders'' i p]"
  by (simp add: updateDoc_def Let_def split: option.splits)

lemma merge_status:
  "d ++ written now [(''status'', FStr s), (''updatedAt'', FServerTimestamp)] =
   d(''status'' \<mapsto> FStr s, ''updatedAt'' \<mapsto> FTime now)"
  by (rule ext) (simp add: map_add_def written_def resolve_def)

lemma merge_claim:
  "d ++ written now [(''status'', FStr s), (''updatedAt'', FServerTimestamp),
         (''assignedDriverUid'', FStr a), (''assignedDriverName'', FStr n)] =
   d(''status'' \<mapsto> FStr s, ''updatedAt'' \<mapsto> FTime now,
     ''assignedDriverUid'' \<mapsto> FStr a, ''assignedDriverName'' \<mapsto> FStr n)"
  by (rule ext) (simp add: map_add_def written_def resolve_def)

lemma merge_assign:
  "d ++ written now [(''assignedDriverUid'', FStr a), (''assignedDriverName'', FStr n),
         (''updatedAt'', FServerTimestamp)] =
   d(''assignedDriverUid'' \<mapsto> FStr a, ''assignedDriverName'' \<mapsto> FStr n,
     ''updatedAt'' \<mapsto> FTime now)"
  by (rule ext) (simp add: map_add_def written_def resolve_def)

lemma parseStatus_statusName [simp]: "parseStatus (statusName st) = Some st"
  by (cases st) (simp_all add: parseStatus_def)

lemma docStatus_after_status [simp]:
  "docStatus (d(''status'' \<mapsto> FStr s, ''updatedAt'' \<mapsto> t)) = parseStatus s"
  by (simp add: docStatus_def)

lemma docStatus_after_claim [simp]:
  "docStatus (d(''status'' \<mapsto> FStr s, ''updatedAt'' \<mapsto> t, ''assignedDriverUid'' \<mapsto> a,
     ''assignedDriverName'' \<mapsto> n)) = parseStatus s"
  by (simp add: docStatus_def)

lemma status_toOrder [simp]: "status (toOrder i d) = docStatus d"
  by (simp add: toOrder_def)

lemma oid_toOrder [simp]: "oid (toOrder i d) = i"
  by (simp add: toOrder_def)

lemma sampleStored_status [simp]: "docStatus (sampleStored st u n) = Some st"
  by (simp add: docStatus_def sampleStored_def)

lemma sampleStored_uid [simp]:
  "strField (sampleStored st u n) ''assignedDriverUid'' =
     (case u of FStr x \<Rightarrow> Some x | _ \<Rightarrow> None)"
  by (simp add: strField_def sampleStored_def split: fval.splits)

lemma asciiTrim_sample:
  "asciiTrim ''Thabo'' = ''Thabo''"
  "asciiTrim ''0821234567'' = ''0821234567''"
  "asciiTrim ''12 Main Rd'' = ''12 Main Rd''"
  "asciiTrim [] = []"
  by (simp_all add: asciiTrim_def asciiSpace_def)

section \<open>Properties of the driver screen\<close>

lemma driver_reject_start:
  "status order \<noteq> Some CONFIRMED \<Longrightarrow>
   driver_updateStatus user now order OUT_FOR_DELIVERY w =
     (Some ''This delivery is no longer in the confirmed stage.'', w)"
  by (simp add: driver_updateStatus_def)

lemma driver_reject_delivered:
  "status order \<noteq> Some OUT_FOR_DELIVERY \<Longrightarrow>
   driver_updateStatus user now order DELIVERED w =
     (Some ''This delivery is not out for delivery yet.'', w)"
  by (simp add: driver_updateStatus_def)




lemma driver_start_unassigned:
  assumes "status order = Some CONFIRMED" and "user = Some u" and "userUid u \<noteq> []"
    and "\<not> truthy (assignedDriverUid order)"
  shows "driver_updateStatus user now order OUT_FOR_DELIVERY w =
     (None, snd (updateDoc now (oid order)
        [(''status'', FStr ''OUT_FOR_DELIVERY''), (''updatedAt'', FServerTimestamp),
         (''assignedDriverUid'', FStr (userUid u)),
         (''assignedDriverName'', FStr (claimName user order))] w))"
  using assms by (simp add: driver_updateStatus_def)

lemma driver_start_assigned:
  assumes "status order = Some CONFIRMED" and "truthy (assignedDriverUid order)"
  shows "driver_updateStatus user now order OUT_FOR_DELIVERY w =
     (None, snd (updateDoc now (oid order)
        [(''status'', FStr ''OUT_FOR_DELIVERY''), (''updatedAt'', FServerTimestamp)] w))"
  using assms by (simp add: driver_updateStatus_def split: option.splits)

text \<open>
  Claim C2. A signed-in driver starts the delivery of a CONFIRMED order. If the order has
  no assigned driver, exactly one update of that one document is requested, and it sets
  the status to \<open>OUT_FOR_DELIVERY\<close>, the assigned driver identifier to the driver's own
  and the assigned driver name, all at once. If the order already has an assigned
  driver, the one update carries the status and the update timestamp only. An order
  object "has an assigned driver" when \<^verbatim>\<open>order.assignedDriverUid\<close> is truthy, as the code
  tests it; the driver's identifier is non-empty.
\<close>

theorem driver_claim_and_advance:
  assumes "status order = Some CONFIRMED" and "user = Some u" and "userUid u \<noteq> []"
  shows
    "(\<not> truthy (assignedDriverUid order) \<longrightarrow>
        fst (driver_updateStatus user now order OUT_FOR_DELIVERY w) = None \<and>
        calls (snd (driver_updateStatus user now order OUT_FOR_DELIVERY w)) =
          calls w @ [UpdateDoc ''orders'' (oid order)
            [(''status'', FStr ''OUT_FOR_DELIVERY''), (''updatedAt'', FServerTimestamp),
             (''assignedDriverUid'', FStr (userUid u)),
             (''assignedDriverName'', FStr (claimName user order))]] \<and>
        (\<forall>d. orders w (oid order) = Some d \<longrightarrow>
           orders (snd (driver_updateStatus user now order OUT_FOR_DELIVERY w)) (oid order) =
             Some (d(''status'' \<mapsto> FStr ''OUT_FOR_DELIVERY'', ''updatedAt'' \<mapsto> FTime now,
                     ''assignedDriverUid'' \<mapsto> FStr (userUid u),
                     ''assignedDriverName'' \<mapsto> FStr (claimName user order))))) \<and>
     (truthy (assignedDriverUid order) \<longrightarrow>
        fst (driver_updateStatus user now order OUT_FOR_DELIVERY w) = None \<and>
        calls (snd (driver_updateStatus user now order OUT_FOR_DELIVERY w)) =
          calls w @ [UpdateDoc ''orders'' (oid order)
            [(''status'', FStr ''OUT_FOR_DELIVERY''), (''updatedAt'', FServerTimestamp)]] \<and>
        (\<forall>d. orders w (oid order) = Some d \<longrightarrow>
           orders (snd (driver_updateStatus user now order OUT_FOR_DELIVERY w)) (oid order) =
             Some (d(''status'' \<mapsto> FStr ''OUT_FOR_DELIVERY'', ''updatedAt'' \<mapsto> FTime now))))"
proof (cases "truthy (assignedDriverUid order)")
  case True
  show ?thesis
    by (simp add: True driver_start_assigned [OF assms(1) True] updateDoc_calls
          updateDoc_orders merge_status)
next
  case False
  show ?thesis
    by (simp add: False driver_start_unassigned [OF assms False] updateDoc_calls
          updateDoc_orders merge_claim)
qed

theorem driver_claim_and_advance_witness:
  "orders (snd (driver_updateStatus (Some sampleUser) 5
                  (toOrder ''o1'' (sampleStored CONFIRMED FNull FNull)) OUT_FOR_DELIVERY
                  (sampleWorld (sampleStored CONFIRMED FNull FNull)))) ''o1'' =
     Some ((sampleStored CONFIRMED FNull FNull)
             (''status'' \<mapsto> FStr ''OUT_FOR_DELIVERY'', ''updatedAt'' \<mapsto> FTime 5,
              ''assignedDriverUid'' \<mapsto> FStr ''drv1'', ''assignedDriverName'' \<mapsto> FStr ''Sipho'')) \<and>
   orders (snd (driver_updateStatus (Some sampleUser) 5
                  (toOrder ''o1'' (sampleStored CONFIRMED (FStr ''drv2'') (FStr ''Lebo'')))
                  OUT_FOR_DELIVERY
                  (sampleWorld (sampleStored CONFIRMED (FStr ''drv2'') (FStr ''Lebo''))))) ''o1'' =
     Some ((sampleStored CONFIRMED (FStr ''drv2'') (FStr ''Lebo''))
             (''status'' \<mapsto> FStr ''OUT_FOR_DELIVERY'', ''updatedAt'' \<mapsto> FTime 5))"
proof -
  let ?k = "sampleStored CONFIRMED FNull FNull"
  let ?a = "sampleStored CONFIRMED (FStr ''drv2'') (FStr ''Lebo'')"
  have u: "userUid sampleUser \<noteq> []" by (simp add: sampleUser_def)
  have s1: "status (toOrder ''o1'' ?k) = Some CONFIRMED" by simp
  have s2: "status (toOrder ''o1'' ?a) = Some CONFIRMED" by simp
  have t1: "\<not> truthy (assignedDriverUid (toOrder ''o1'' ?k))"
    by (simp add: toOrder_def truthy_def)
  have t2: "truthy (assignedDriverUid (toOrder ''o1'' ?a))"
    by (simp add: toOrder_def truthy_def)
  have n: "claimName (Some sampleUser) (toOrder ''o1'' ?k) = ''Sipho''"
    by (simp add: claimName_def toOrder_def strField_def sampleStored_def sampleUser_def)
  have a: "orders (snd (driver_updateStatus (Some sampleUser) 5 (toOrder ''o1'' ?k)
                  OUT_FOR_DELIVERY (sampleWorld ?k))) ''o1'' =
     Some (?k(''status'' \<mapsto> FStr ''OUT_FOR_DELIVERY'', ''updatedAt'' \<mapsto> FTime 5,
              ''assignedDriverUid'' \<mapsto> FStr ''drv1'', ''assignedDriverName'' \<mapsto> FStr ''Sipho''))"
    using driver_claim_and_advance [OF s1 refl u, of 5 "sampleWorld ?k"] t1 n
    by (simp add: sampleWorld_def sampleUser_def)
  have b: "orders (snd (driver_updateStatus (Some sampleUser) 5 (toOrder ''o1'' ?a)
                  OUT_FOR_DELIVERY (sampleWorld ?a))) ''o1'' =
     Some (?a(''status'' \<mapsto> FStr ''OUT_FOR_DELIVERY'', ''updatedAt'' \<mapsto> FTime 5))"
    using driver_claim_and_advance [OF s2 refl u, of 5 "sampleWorld ?a"] t2
    by (simp add: sampleWorld_def)
  from a b show ?thesis by blast
qed

section \<open>Properties of the owner screen\<close>

lemma handleAssignDriver_selected:
  assumes "driverSelections s (oid order) = Some sel" and "sel \<noteq> []"
  shows "snd (handleAssignDriver now order s w) =
           snd (updateDoc now (oid order)
             [(''assignedDriverUid'', FStr sel),
              (''assignedDriverName'',
                 FStr (case find (\<lambda>item. uid item = sel) (drivers s) of
                         Some d \<Rightarrow> name d | None \<Rightarrow> ''Driver'')),
              (''updatedAt'', FServerTimestamp)] w)"
    and "driverSelections (fst (handleAssignDriver now order s w)) = driverSelections s"
    and "drivers (fst (handleAssignDriver now order s w)) = drivers s"
  using assms by (simp_all add: handleAssignDriver_def Let_def)


text \<open>
  Claim C8. For every stored order and selected driver, the owner's assignment requests
  one update that carries the assigned driver identifier, the assigned driver name and
  the update timestamp and nothing else; the status and every other field of the
  document keep their values. Assigning the driver that the document already records
  (identifier and name as the drivers list gives them) changes the update timestamp
  only, and assigning twice in a row gives what assigning once gives, up to the
  timestamp.
\<close>

theorem handleAssignDriver_frame:
  assumes "driverSelections s (oid order) = Some sel" and "sel \<noteq> []"
    and "orders w (oid order) = Some d"
    and "nm = (case find (\<lambda>item. uid item = sel) (drivers s) of
                 Some x \<Rightarrow> name x | None \<Rightarrow> ''Driver'')"
  shows
    "calls (snd (handleAssignDriver now order s w)) =
       calls w @ [UpdateDoc ''orders'' (oid order)
         [(''assignedDriverUid'', FStr sel), (''assignedDriverName'', FStr nm),
          (''updatedAt'', FServerTimestamp)]] \<and>
     orders (snd (handleAssignDriver now order s w)) =
       (orders w)(oid order \<mapsto>
          d(''assignedDriverUid'' \<mapsto> FStr sel, ''assignedDriverName'' \<mapsto> FStr nm,
            ''updatedAt'' \<mapsto> FTime now)) \<and>
     (\<forall>d'. orders (snd (handleAssignDriver now order s w)) (oid order) = Some d' \<longrightarrow>
        docStatus d' = docStatus d \<and>
        (\<forall>k. k \<noteq> ''assignedDriverUid'' \<and> k \<noteq> ''assignedDriverName'' \<and> k \<noteq> ''updatedAt'' \<longrightarrow>
           d' k = d k)) \<and>
     (d ''assignedDriverUid'' = Some (FStr sel) \<and> d ''assignedDriverName'' = Some (FStr nm) \<longrightarrow>
        orders (snd (handleAssignDriver now order s w)) (oid order) =
          Some (d(''updatedAt'' \<mapsto> FTime now))) \<and>
     orders (snd (handleAssignDriver now' order (fst (handleAssignDriver now order s w))
                    (snd (handleAssignDriver now order s w)))) (oid order) =
       Some (d(''assignedDriverUid'' \<mapsto> FStr sel, ''assignedDriverName'' \<mapsto> FStr nm,
               ''updatedAt'' \<mapsto> FTime now'))"
proof -
  let ?p = "[(''assignedDriverUid'', FStr sel), (''assignedDriverName'', FStr nm),
             (''updatedAt'', FServerTimestamp)]"
  let ?r = "handleAssignDriver now order s w"
  have w1: "snd ?r = snd (updateDoc now (oid order) ?p w)"
    using handleAssignDriver_selected(1) [OF assms(1,2)] assms(4) by simp
  have c: "calls (snd ?r) = calls w @ [UpdateDoc ''orders'' (oid order) ?p]"
    by (simp add: w1 updateDoc_calls)
  have o: "orders (snd ?r) =
       (orders w)(oid order \<mapsto>
          d(''assignedDriverUid'' \<mapsto> FStr sel, ''assignedDriverName'' \<mapsto> FStr nm,
            ''updatedAt'' \<mapsto> FTime now))"
    by (rule ext) (simp add: w1 updateDoc_orders assms(3) merge_assign)
  have f: "\<forall>d'. orders (snd ?r) (oid order) = Some d' \<longrightarrow>
        docStatus d' = docStatus d \<and>
        (\<forall>k. k \<noteq> ''assignedDriverUid'' \<and> k \<noteq> ''assignedDriverName'' \<and> k \<noteq> ''updatedAt'' \<longrightarrow>
           d' k = d k)"
    by (auto simp: o docStatus_def)
  have i: "d ''assignedDriverUid'' = Some (FStr sel) \<and> d ''assignedDriverName'' = Some (FStr nm) \<longrightarrow>
        orders (snd ?r) (oid order) = Some (d(''updatedAt'' \<mapsto> FTime now))"
  proof
    assume a: "d ''assignedDriverUid'' = Some (FStr sel) \<and> d ''assignedDriverName'' = Some (FStr nm)"
    have "d(''assignedDriverUid'' \<mapsto> FStr sel, ''assignedDriverName'' \<mapsto> FStr nm,
            ''updatedAt'' \<mapsto> FTime now) = d(''updatedAt'' \<mapsto> FTime now)"
      using a by (intro ext) simp
    then show "orders (snd ?r) (oid order) = Some (d(''updatedAt'' \<mapsto> FTime now))"
      by (simp add: o)
  qed
  have sel': "driverSelections (fst ?r) (oid order) = Some sel"
    using handleAssignDriver_selected(2) [OF assms(1,2)] assms(1) by simp
  have nm': "nm = (case find (\<lambda>item. uid item = sel) (drivers (fst ?r)) of
                 Some x \<Rightarrow> name x | None \<Rightarrow> ''Driver'')"
    using handleAssignDriver_selected(3) [OF assms(1,2)] assms(4) by simp
  have w2: "snd (handleAssignDriver now' order (fst ?r) (snd ?r)) =
              snd (updateDoc now' (oid order) ?p (snd ?r))"
    using handleAssignDriver_selected(1) [OF sel' assms(2)] nm' by simp
  have t: "orders (snd (handleAssignDriver now' order (fst ?r) (snd ?r))) (oid order) =
       Some (d(''assignedDriverUid'' \<mapsto> FStr sel, ''assignedDriverName'' \<mapsto> FStr nm,
               ''updatedAt'' \<mapsto> FTime now'))"
    by (simp add: w2 updateDoc_orders o merge_assign)
  from c o f i t show ?thesis by blast
qed

theorem handleAssignDriver_frame_witness:
  "orders (snd (handleAssignDriver 5 (toOrder ''o1'' (sampleStored PENDING FNull FNull))
                  sampleOwnerState (sampleWorld (sampleStored PENDING FNull FNull)))) =
     [''o1'' \<mapsto> (sampleStored PENDING FNull FNull)
        (''assignedDriverUid'' \<mapsto> FStr ''drv1'', ''assignedDriverName'' \<mapsto> FStr ''Sipho'',
         ''updatedAt'' \<mapsto> FTime 5)] \<and>
   orders (snd (handleAssignDriver 9
                  (toOrder ''o1'' (sampleStored CONFIRMED (FStr ''drv1'') (FStr ''Sipho'')))
                  sampleOwnerState
                  (sampleWorld (sampleStored CONFIRMED (FStr ''drv1'') (FStr ''Sipho''))))) ''o1'' =
     Some ((sampleStored CONFIRMED (FStr ''drv1'') (FStr ''Sipho''))(''updatedAt'' \<mapsto> FTime 9))"
proof -
  let ?p = "sampleStored PENDING FNull FNull"
  let ?k = "sampleStored CONFIRMED (FStr ''drv1'') (FStr ''Sipho'')"
  have sel: "\<And>d. driverSelections sampleOwnerState (oid (toOrder ''o1'' d)) = Some ''drv1''"
    by (simp add: sampleOwnerState_def)
  have ne: "''drv1'' \<noteq> []" by simp
  have nm: "''Sipho'' = (case find (\<lambda>item. uid item = ''drv1'') (drivers sampleOwnerState) of
                 Some x \<Rightarrow> name x | None \<Rightarrow> ''Driver'')"
    by (simp add: sampleOwnerState_def)
  have o: "\<And>d. orders (sampleWorld d) (oid (toOrder ''o1'' d)) = Some d"
    by (simp add: sampleWorld_def)
  have a: "orders (snd (handleAssignDriver 5 (toOrder ''o1'' ?p) sampleOwnerState (sampleWorld ?p))) =
     [''o1'' \<mapsto> ?p(''assignedDriverUid'' \<mapsto> FStr ''drv1'', ''assignedDriverName'' \<mapsto> FStr ''Sipho'',
         ''updatedAt'' \<mapsto> FTime 5)]"
    using handleAssignDriver_frame [OF sel [of ?p] ne o [of ?p] nm, where now = 5 and now' = 5]
    by (simp add: sampleWorld_def)
  have kf: "?k ''assignedDriverUid'' = Some (FStr ''drv1'') \<and>
            ?k ''assignedDriverName'' = Some (FStr ''Sipho'')"
    by (simp add: sampleStored_def)
  have b: "orders (snd (handleAssignDriver 9 (toOrder ''o1'' ?k) sampleOwnerState (sampleWorld ?k)))
             ''o1'' = Some (?k(''updatedAt'' \<mapsto> FTime 9))"
  proof -
    have "?k ''assignedDriverUid'' = Some (FStr ''drv1'') \<and>
          ?k ''assignedDriverName'' = Some (FStr ''Sipho'') \<longrightarrow>
          orders (snd (handleAssignDriver 9 (toOrder ''o1'' ?k) sampleOwnerState (sampleWorld ?k)))
            (oid (toOrder ''o1'' ?k)) = Some (?k(''updatedAt'' \<mapsto> FTime 9))"
      using handleAssignDriver_frame [OF sel [of ?k] ne o [of ?k] nm, where now = 9 and now' = 9]
      by blast
    with kf show ?thesis by simp
  qed
  from a b show ?thesis by blast
qed

lemma owner_offered:
  "offered s order (OwnerStatus CONFIRMED) = (status order = Some PENDING)"
  "offered s order (OwnerStatus CANCELLED) =
     (status order = Some PENDING \<or> status order = Some CONFIRMED)"
  "offered s order (OwnerStatus PENDING) = (status order = Some CONFIRMED)"
  "\<not> offered s order (OwnerStatus OUT_FOR_DELIVERY)"
  "\<not> offered s order (OwnerStatus DELIVERED)"
  by (auto simp: offered_def ownerButtons_def)

lemma owner_updateStatus_orders:
  "orders w i = Some d \<Longrightarrow>
   orders (owner_updateStatus now i st w) =
     (orders w)(i \<mapsto> d(''status'' \<mapsto> FStr (statusName st), ''updatedAt'' \<mapsto> FTime now))"
  by (rule ext) (simp add: owner_updateStatus_def updateDoc_orders merge_status)

text \<open>
  Claim C1, as amended. The driver's two transitions test the status of the order object
  they are given and, when the precondition fails, report a message and leave the
  collection and the request log as they were. The owner's transitions are guarded by
  rendering only: Confirm is on the card exactly when the order shows PENDING, Revert to
  Pending exactly when it shows CONFIRMED, Cancel exactly when it shows one of the two.
  The owner's \<^verbatim>\<open>updateStatus\<close> itself tests nothing, reports nothing and writes the
  status and the update timestamp into the document whatever it holds.
\<close>

theorem transition_guards:
  "(status order \<noteq> Some CONFIRMED \<longrightarrow>
      (\<exists>m. driver_updateStatus user now order OUT_FOR_DELIVERY w = (Some m, w))) \<and>
   (status order \<noteq> Some OUT_FOR_DELIVERY \<longrightarrow>
      (\<exists>m. driver_updateStatus user now order DELIVERED w = (Some m, w))) \<and>
   offered s order (OwnerStatus CONFIRMED) = (status order = Some PENDING) \<and>
   offered s order (OwnerStatus CANCELLED) =
     (status order = Some PENDING \<or> status order = Some CONFIRMED) \<and>
   offered s order (OwnerStatus PENDING) = (status order = Some CONFIRMED) \<and>
   (\<forall>d. orders w i = Some d \<longrightarrow>
      orders (owner_updateStatus now i st w) i =
        Some (d(''status'' \<mapsto> FStr (statusName st), ''updatedAt'' \<mapsto> FTime now)))"
  by (simp add: driver_reject_start driver_reject_delivered owner_offered
        owner_updateStatus_orders)

theorem transition_guards_witness:
  "driver_updateStatus (Some sampleUser) 5 (toOrder ''o1'' (sampleStored CANCELLED FNull FNull))
      OUT_FOR_DELIVERY (sampleWorld (sampleStored CANCELLED FNull FNull)) =
     (Some ''This delivery is no longer in the confirmed stage.'',
      sampleWorld (sampleStored CANCELLED FNull FNull)) \<and>
   \<not> offered sampleOwnerState (toOrder ''o1'' (sampleStored CANCELLED FNull FNull))
       (OwnerStatus CONFIRMED) \<and>
   map_option docStatus
     (orders (owner_updateStatus 5 ''o1'' CONFIRMED (sampleWorld (sampleStored PENDING FNull FNull)))
        ''o1'') = Some (Some CONFIRMED)"
proof -
  let ?d = "sampleStored CANCELLED FNull FNull"
  let ?p = "sampleStored PENDING FNull FNull"
  have h: "status (toOrder ''o1'' ?d) \<noteq> Some CONFIRMED" by simp
  have a: "driver_updateStatus (Some sampleUser) 5 (toOrder ''o1'' ?d) OUT_FOR_DELIVERY
             (sampleWorld ?d) =
           (Some ''This delivery is no longer in the confirmed stage.'', sampleWorld ?d)"
    using transition_guards [of "toOrder ''o1'' ?d" "Some sampleUser" 5 "sampleWorld ?d"] h
    by (auto simp: driver_updateStatus_def)
  have b: "\<not> offered sampleOwnerState (toOrder ''o1'' ?d) (OwnerStatus CONFIRMED)"
    using transition_guards [of "toOrder ''o1'' ?d" "Some sampleUser" 5 "sampleWorld ?d"
        sampleOwnerState] by simp
  have o: "orders (sampleWorld ?p) ''o1'' = Some ?p" by (simp add: sampleWorld_def)
  have c: "map_option docStatus
     (orders (owner_updateStatus 5 ''o1'' CONFIRMED (sampleWorld ?p)) ''o1'') =
       Some (Some CONFIRMED)"
    using transition_guards [of "toOrder ''o1'' ?p" "Some sampleUser" 5 "sampleWorld ?p"
        sampleOwnerState "''o1''" CONFIRMED] o
    by (simp add: parseStatus_def)
  from a b c show ?thesis by blast
qed

text \<open>
  The claim as stated fails for the owner's transitions: called on a delivered order with
  target CANCELLED, \<^verbatim>\<open>updateStatus\<close> rejects nothing and rewrites the status.
\<close>

theorem owner_updateStatus_unguarded_counterexample:
  "docStatus (sampleStored DELIVERED (FStr ''drv1'') (FStr ''Sipho'')) = Some DELIVERED \<and>
   map_option docStatus
     (orders (owner_updateStatus 5 ''o1'' CANCELLED
                (sampleWorld (sampleStored DELIVERED (FStr ''drv1'') (FStr ''Sipho'')))) ''o1'') =
     Some (Some CANCELLED) \<and>
   calls (owner_updateStatus 5 ''o1'' CANCELLED
            (sampleWorld (sampleStored DELIVERED (FStr ''drv1'') (FStr ''Sipho'')))) =
     [UpdateDoc ''orders'' ''o1''
        [(''status'', FStr ''CANCELLED''), (''updatedAt'', FServerTimestamp)]]"
  by (simp add: owner_updateStatus_def updateDoc_orders updateDoc_calls merge_status
        sampleWorld_def parseStatus_def)

section \<open>Terminal states\<close>







section \<open>The assignment pair\<close>

lemma consistent_status:
  "assignmentConsistent d \<Longrightarrow>
   assignmentConsistent (d(''status'' \<mapsto> FStr s, ''updatedAt'' \<mapsto> FTime now))"
  by (simp add: assignmentConsistent_def)

lemma consistent_assign:
  "assignmentConsistent (d(''assignedDriverUid'' \<mapsto> FStr a, ''assignedDriverName'' \<mapsto> FStr n,
     ''updatedAt'' \<mapsto> FTime now))"
  by (simp add: assignmentConsistent_def unset_def)

lemma consistent_claim:
  "assignmentConsistent (d(''status'' \<mapsto> FStr s, ''updatedAt'' \<mapsto> FTime now,
     ''assignedDriverUid'' \<mapsto> FStr a, ''assignedDriverName'' \<mapsto> FStr n))"
  by (simp add: assignmentConsistent_def unset_def)

lemma consistent_created:
  "assignmentConsistent (written now (orderPayload pf u ts s))"
  by (simp add: assignmentConsistent_def unset_def written_def orderPayload_def resolve_def)

lemma allConsistent_updateDoc:
  assumes "allConsistent w"
    and "\<And>d. assignmentConsistent d \<Longrightarrow> assignmentConsistent (d ++ written now p)"
  shows "allConsistent (snd (updateDoc now i p w))"
  using assms by (auto simp: allConsistent_def updateDoc_orders split: if_splits)

lemma allConsistent_owner_status:
  "allConsistent w \<Longrightarrow> allConsistent (owner_updateStatus now i st w)"
  unfolding owner_updateStatus_def
  by (rule allConsistent_updateDoc) (simp_all add: merge_status consistent_status)

lemma allConsistent_assign:
  "allConsistent w \<Longrightarrow> allConsistent (snd (handleAssignDriver now order s w))"
  by (auto simp: handleAssignDriver_def Let_def merge_assign consistent_assign
        intro!: allConsistent_updateDoc split: option.splits)

lemma allConsistent_driver:
  "allConsistent w \<Longrightarrow> allConsistent (snd (driver_updateStatus user now order st w))"
  by (auto simp: driver_updateStatus_def Let_def merge_status merge_claim consistent_status
        consistent_claim intro!: allConsistent_updateDoc split: option.splits)

lemma allConsistent_submit:
  "allConsistent w \<Longrightarrow> allConsistent (snd (handleSubmit pf now newId ts s w))"
  by (auto simp: handleSubmit_def Let_def addDoc_def allConsistent_def consistent_created
        split: option.splits if_splits)

lemma reachable_allConsistent: "reachable w \<Longrightarrow> allConsistent w"
  by (induction rule: reachable.induct)
     (simp_all add: allConsistent_owner_status allConsistent_assign allConsistent_driver
        allConsistent_submit, simp add: allConsistent_def)

text \<open>
  Claim C9. In every order collection that the screens can produce from the empty one
  (order creation, the owner's status updates and assignment, the driver's status
  updates with or without the claim), every stored order has its assigned driver
  identifier and its assigned driver name either both unset or both set. This holds
  whatever order object, selection or target state the handlers are called with.
\<close>

theorem assignment_pair_invariant:
  "reachable w \<Longrightarrow> orders w i = Some d \<Longrightarrow>
   unset (d ''assignedDriverUid'') = unset (d ''assignedDriverName'')"
  using reachable_allConsistent [of w]
  by (simp add: allConsistent_def assignmentConsistent_def)

theorem assignment_pair_invariant_witness:
  "\<exists>d. orders (snd (driver_updateStatus (Some sampleUser) 7
            (toOrder ''o1'' confirmedUnassigned) OUT_FOR_DELIVERY
            (owner_updateStatus 6 ''o1'' CONFIRMED
               (snd (handleSubmit samplePlatform 5 ''o1'' None (sampleForm (Some sampleUser))
                       \<lparr>orders = Map.empty, calls = []\<rparr>))))) ''o1'' = Some d \<and>
       unset (d ''assignedDriverUid'') = unset (d ''assignedDriverName'')"
proof -
  let ?w0 = "\<lparr>orders = Map.empty, calls = []\<rparr>"
  let ?w1 = "snd (handleSubmit samplePlatform 5 ''o1'' None (sampleForm (Some sampleUser)) ?w0)"
  let ?w2 = "owner_updateStatus 6 ''o1'' CONFIRMED ?w1"
  let ?w3 = "snd (driver_updateStatus (Some sampleUser) 7
       (toOrder ''o1'' confirmedUnassigned) OUT_FOR_DELIVERY ?w2)"
  have r: "reachable ?w3"
    by (intro reachable.driver_status reachable.owner_status reachable.submit reachable.empty)
  have o1: "orders ?w1 ''o1'' \<noteq> None"
    by (simp add: handleSubmit_def sampleForm_def samplePlatform_def asciiTrim_sample
          addDoc_def Let_def)
  have o2: "orders ?w2 ''o1'' \<noteq> None"
    using o1 by (simp add: owner_updateStatus_def updateDoc_orders)
  have "orders ?w3 ''o1'' \<noteq> None"
    using o2 by (simp add: driver_updateStatus_def updateDoc_orders confirmedUnassigned_def)
  then obtain d where d: "orders ?w3 ''o1'' = Some d" by blast
  have "unset (d ''assignedDriverUid'') = unset (d ''assignedDriverName'')"
    by (rule assignment_pair_invariant [OF r d])
  with d show ?thesis by blast
qed

section \<open>Properties of order submission\<close>

lemma not_positive: "(falsy l \<or> nonPositive l) = (\<not> positive l)"
  by (cases l) auto

lemma handleSubmit_signed_out:
  "authUser s = None \<Longrightarrow>
   handleSubmit pf now newId ts s w =
     (s\<lparr>submitError := Some ''Signing you in. Please try again in a moment.''\<rparr>, w)"
  by (simp add: handleSubmit_def)

lemma handleSubmit_invalid:
  assumes "authUser s = Some u"
    and "strTrim pf (form_customerName s) = [] \<or> strTrim pf (form_customerPhone s) = [] \<or>
         strTrim pf (form_address s) = [] \<or> \<not> positive (form_liters s) \<or>
         (form_scheduleType s = later \<and> ts = None)"
  shows "snd (handleSubmit pf now newId ts s w) = w"
    and "\<exists>e. submitError (fst (handleSubmit pf now newId ts s w)) = Some e"
  using assms by (auto simp: handleSubmit_def Let_def not_positive)

lemma orderPayload_submitError [simp]:
  "orderPayload pf u ts (s\<lparr>submitError := e\<rparr>) = orderPayload pf u ts s"
  by (simp add: orderPayload_def)

lemma handleSubmit_valid:
  assumes "authUser s = Some u"
    and "\<not> (strTrim pf (form_customerName s) = [] \<or> strTrim pf (form_customerPhone s) = [] \<or>
         strTrim pf (form_address s) = [] \<or> \<not> positive (form_liters s) \<or>
         (form_scheduleType s = later \<and> ts = None))"
  shows "handleSubmit pf now newId ts s w =
           (s\<lparr>submitError := None, orderId := Some newId, isSubmitting := False\<rparr>,
            snd (addDoc now newId (orderPayload pf u ts s) w))"
  using assms by (auto simp: handleSubmit_def Let_def addDoc_def not_positive)

lemma created_fields:
  "docStatus (written now (orderPayload pf u ts s)) = Some PENDING"
  "written now (orderPayload pf u ts s) ''assignedDriverUid'' = Some FNull"
  "written now (orderPayload pf u ts s) ''assignedDriverName'' = Some FNull"
  "written now (orderPayload pf u ts s) ''scheduledFor'' =
     Some (case ts of None \<Rightarrow> FNull | Some t \<Rightarrow> FTime t)"
  by (simp_all add: written_def orderPayload_def resolve_def docStatus_def parseStatus_def
        split: option.splits)

text \<open>
  Claim C7, as amended. A submission made while no customer session is signed in is
  rejected with the sign-in message before any write, whatever the form holds. For a
  submission made while a session is signed in, from a screen whose memoised target
  instant is \<open>ts\<close>: if the name, the phone or the address is empty after trimming, or
  the litres are not positive, or the schedule kind is "later" and there is no target
  instant, an error is set and no request reaches the store; otherwise exactly one
  document is added, with status PENDING and with the assigned driver identifier and
  name both null.
\<close>

theorem handleSubmit_validation:
  assumes "scheduledTimestamp pf s = MemoValue ts"
  shows
    "(authUser s = None \<longrightarrow>
        submitError (fst (handleSubmit pf now newId ts s w)) =
          Some ''Signing you in. Please try again in a moment.'' \<and>
        snd (handleSubmit pf now newId ts s w) = w) \<and>
     (\<forall>u. authUser s = Some u \<longrightarrow>
        (strTrim pf (form_customerName s) = [] \<or> strTrim pf (form_customerPhone s) = [] \<or>
         strTrim pf (form_address s) = [] \<or> \<not> positive (form_liters s) \<or>
         (form_scheduleType s = later \<and> ts = None) \<longrightarrow>
           (\<exists>e. submitError (fst (handleSubmit pf now newId ts s w)) = Some e) \<and>
           snd (handleSubmit pf now newId ts s w) = w) \<and>
        (\<not> (strTrim pf (form_customerName s) = [] \<or> strTrim pf (form_customerPhone s) = [] \<or>
            strTrim pf (form_address s) = [] \<or> \<not> positive (form_liters s) \<or>
            (form_scheduleType s = later \<and> ts = None)) \<longrightarrow>
           submitError (fst (handleSubmit pf now newId ts s w)) = None \<and>
           orderId (fst (handleSubmit pf now newId ts s w)) = Some newId \<and>
           calls (snd (handleSubmit pf now newId ts s w)) =
             calls w @ [AddDoc ''orders'' (orderPayload pf u ts s)] \<and>
           orders (snd (handleSubmit pf now newId ts s w)) =
             (orders w)(newId \<mapsto> written now (orderPayload pf u ts s)) \<and>
           docStatus (written now (orderPayload pf u ts s)) = Some PENDING \<and>
           written now (orderPayload pf u ts s) ''assignedDriverUid'' = Some FNull \<and>
           written now (orderPayload pf u ts s) ''assignedDriverName'' = Some FNull))"
proof (intro conjI allI impI)
  assume out: "authUser s = None"
  show "submitError (fst (handleSubmit pf now newId ts s w)) =
          Some ''Signing you in. Please try again in a moment.''"
    by (simp add: handleSubmit_signed_out [OF out])
  show "snd (handleSubmit pf now newId ts s w) = w"
    by (simp add: handleSubmit_signed_out [OF out])
next
  fix u
  assume au: "authUser s = Some u"
    and bad: "strTrim pf (form_customerName s) = [] \<or> strTrim pf (form_customerPhone s) = [] \<or>
         strTrim pf (form_address s) = [] \<or> \<not> positive (form_liters s) \<or>
         (form_scheduleType s = later \<and> ts = None)"
  show "\<exists>e. submitError (fst (handleSubmit pf now newId ts s w)) = Some e"
    by (rule handleSubmit_invalid(2) [OF au bad])
  show "snd (handleSubmit pf now newId ts s w) = w"
    by (rule handleSubmit_invalid(1) [OF au bad])
next
  fix u
  assume au: "authUser s = Some u"
    and good: "\<not> (strTrim pf (form_customerName s) = [] \<or> strTrim pf (form_customerPhone s) = [] \<or>
            strTrim pf (form_address s) = [] \<or> \<not> positive (form_liters s) \<or>
            (form_scheduleType s = later \<and> ts = None))"
  note v = handleSubmit_valid [OF au good, of now newId w]
  show "submitError (fst (handleSubmit pf now newId ts s w)) = None"
    by (simp add: v)
  show "orderId (fst (handleSubmit pf now newId ts s w)) = Some newId"
    by (simp add: v)
  show "calls (snd (handleSubmit pf now newId ts s w)) =
          calls w @ [AddDoc ''orders'' (orderPayload pf u ts s)]"
    by (simp add: v addDoc_def)
  show "orders (snd (handleSubmit pf now newId ts s w)) =
          (orders w)(newId \<mapsto> written now (orderPayload pf u ts s))"
    by (simp add: v addDoc_def)
  show "docStatus (written now (orderPayload pf u ts s)) = Some PENDING"
    by (rule created_fields)
  show "written now (orderPayload pf u ts s) ''assignedDriverUid'' = Some FNull"
    by (rule created_fields)
  show "written now (orderPayload pf u ts s) ''assignedDriverName'' = Some FNull"
    by (rule created_fields)
qed

lemma sample_memo:
  "scheduledTimestamp samplePlatform (sampleForm a) = MemoValue None"
  "scheduledTimestamp samplePlatform (sampleLaterForm a) = MemoValue (Some 202600150930)"
  "scheduledTimestamp samplePlatform ((sampleLaterForm a)\<lparr>form_scheduledDate := []\<rparr>) =
     MemoValue None"
  by (simp_all add: scheduledTimestamp_def sampleForm_def sampleLaterForm_def samplePlatform_def
        digitsNumber_def digitOf_def elemAt_def falsyElem_def elemOrZero_def orZero_def Let_def)

theorem handleSubmit_validation_witness:
  "orders (snd (handleSubmit samplePlatform 5 ''o1'' None (sampleForm (Some sampleUser))
                  \<lparr>orders = Map.empty, calls = []\<rparr>)) =
     [''o1'' \<mapsto> written 5 (orderPayload samplePlatform sampleUser None
                             (sampleForm (Some sampleUser)))] \<and>
   orders (snd (handleSubmit samplePlatform 5 ''o1'' (Some 202600150930)
                  (sampleLaterForm (Some sampleUser)) \<lparr>orders = Map.empty, calls = []\<rparr>)) =
     [''o1'' \<mapsto> written 5 (orderPayload samplePlatform sampleUser (Some 202600150930)
                             (sampleLaterForm (Some sampleUser)))] \<and>
   snd (handleSubmit samplePlatform 5 ''o1'' None
          ((sampleLaterForm (Some sampleUser))\<lparr>form_scheduledDate := []\<rparr>)
          \<lparr>orders = Map.empty, calls = []\<rparr>) = \<lparr>orders = Map.empty, calls = []\<rparr> \<and>
   snd (handleSubmit samplePlatform 5 ''o1'' None (sampleForm None)
          \<lparr>orders = Map.empty, calls = []\<rparr>) = \<lparr>orders = Map.empty, calls = []\<rparr>"
proof -
  let ?s = "sampleForm (Some sampleUser)"
  let ?l = "sampleLaterForm (Some sampleUser)"
  let ?e = "(sampleLaterForm (Some sampleUser))\<lparr>form_scheduledDate := []\<rparr>"
  let ?w = "\<lparr>orders = Map.empty, calls = []\<rparr>"
  have a: "orders (snd (handleSubmit samplePlatform 5 ''o1'' None ?s ?w)) =
     [''o1'' \<mapsto> written 5 (orderPayload samplePlatform sampleUser None ?s)]"
    using handleSubmit_validation [OF sample_memo(1), of "Some sampleUser" 5 "''o1''" ?w]
    by (simp add: sampleForm_def samplePlatform_def asciiTrim_sample)
  have b: "orders (snd (handleSubmit samplePlatform 5 ''o1'' (Some 202600150930) ?l ?w)) =
     [''o1'' \<mapsto> written 5 (orderPayload samplePlatform sampleUser (Some 202600150930) ?l)]"
    using handleSubmit_validation [OF sample_memo(2), of "Some sampleUser" 5 "''o1''" ?w]
    by (simp add: sampleForm_def sampleLaterForm_def samplePlatform_def asciiTrim_sample)
  have c: "snd (handleSubmit samplePlatform 5 ''o1'' None ?e ?w) = ?w"
    using handleSubmit_validation [OF sample_memo(3), of "Some sampleUser" 5 "''o1''" ?w]
    by (simp add: sampleForm_def sampleLaterForm_def)
  have d: "snd (handleSubmit samplePlatform 5 ''o1'' None (sampleForm None) ?w) = ?w"
    using handleSubmit_validation [OF sample_memo(1), of None 5 "''o1''" ?w]
    by (simp add: sampleForm_def)
  from a b c d show ?thesis by blast
qed

text \<open>
  The claim as stated fails without a signed-in session: a form that passes every check
  of the claim is rejected with the sign-in message and nothing is written.
\<close>

theorem handleSubmit_signed_out_counterexample:
  "strTrim samplePlatform (form_customerName (sampleForm None)) \<noteq> [] \<and>
   strTrim samplePlatform (form_customerPhone (sampleForm None)) \<noteq> [] \<and>
   strTrim samplePlatform (form_address (sampleForm None)) \<noteq> [] \<and>
   positive (form_liters (sampleForm None)) \<and>
   form_scheduleType (sampleForm None) = asap \<and>
   scheduledTimestamp samplePlatform (sampleForm None) = MemoValue None \<and>
   snd (handleSubmit samplePlatform 5 ''o1'' None (sampleForm None)
          \<lparr>orders = Map.empty, calls = []\<rparr>) = \<lparr>orders = Map.empty, calls = []\<rparr> \<and>
   submitError (fst (handleSubmit samplePlatform 5 ''o1'' None (sampleForm None)
          \<lparr>orders = Map.empty, calls = []\<rparr>)) =
     Some ''Signing you in. Please try again in a moment.''"
  by (simp add: sample_memo) (simp add: sampleForm_def samplePlatform_def asciiTrim_sample
        handleSubmit_def)

section \<open>Properties of the dashboard\<close>

lemma delivered_iff:
  "data ''status'' = Some (FStr ''DELIVERED'') \<longleftrightarrow> docStatus data = Some DELIVERED"
  by (auto simp: docStatus_def parseStatus_def split: option.splits fval.splits if_splits)

lemma foldl_total:
  "total (foldl (countOrder pf) m ds) = total m + length ds"
  by (induction ds arbitrary: m) (simp_all add: countOrder_def Let_def split: option.splits)

lemma foldl_totalLiters:
  "totalLiters (foldl (countOrder pf) m ds) =
     foldl (numAdd pf) (totalLiters m) (map docLiters ds)"
  by (induction ds arbitrary: m)
     (simp_all add: countOrder_def Let_def split: option.splits)

lemma foldl_byStatus:
  "byStatus (foldl (countOrder pf) m ds) st =
     byStatus m st + length (filter (\<lambda>data. docStatus data = Some st) ds)"
  by (induction ds arbitrary: m)
     (auto simp: countOrder_def Let_def split: option.splits)

lemma foldl_deliveredOrders:
  "deliveredOrders (foldl (countOrder pf) m ds) =
     deliveredOrders m + length (filter (\<lambda>data. docStatus data = Some DELIVERED) ds)"
  by (induction ds arbitrary: m)
     (auto simp: countOrder_def Let_def delivered_iff split: option.splits)

lemma foldl_deliveredLiters:
  "deliveredLiters (foldl (countOrder pf) m ds) =
     foldl (numAdd pf) (deliveredLiters m)
       (map docLiters (filter (\<lambda>data. docStatus data = Some DELIVERED) ds))"
  by (induction ds arbitrary: m)
     (auto simp: countOrder_def Let_def delivered_iff split: option.splits)

lemma sample_status [simp]: "docStatus (sampleOrderDoc st l) = Some st"
  by (simp add: docStatus_def sampleOrderDoc_def)

lemma sample_liters [simp]: "docLiters (sampleOrderDoc st l) = Fin l"
  by (simp add: docLiters_def sampleOrderDoc_def)

lemma positive_orZero: "positive (orZero x) = positive x"
  by (cases x) (auto simp: orZero_def)

lemma orZero_positive: "positive x \<Longrightarrow> orZero x = x"
  by (cases x) (auto simp: orZero_def)

lemma representable_sample:
  "representable 0" "representable 1000" "representable 500" "representable 1500"
  "representable (3 / 2)" "representable 250" "representable 375" "representable 20"
  "representable 2" "representable 40" "representable 415"
  by (simp_all add: representable_def)

lemma exact_add:
  "exactArithmetic pf \<Longrightarrow> representable x \<Longrightarrow> representable y \<Longrightarrow> representable (x + y) \<Longrightarrow>
   numAdd pf (Fin x) (Fin y) = Fin (x + y)"
  by (simp add: exactArithmetic_def)

lemma exact_mul:
  "exactArithmetic pf \<Longrightarrow> representable x \<Longrightarrow> representable y \<Longrightarrow> representable (x * y) \<Longrightarrow>
   numMul pf (Fin x) (Fin y) = Fin (x * y)"
  by (simp add: exactArithmetic_def)

lemma exact_div:
  "exactArithmetic pf \<Longrightarrow> representable x \<Longrightarrow> representable y \<Longrightarrow> y \<noteq> 0 \<Longrightarrow>
   representable (x / y) \<Longrightarrow> numDiv pf (Fin x) (Fin y) = Fin (x / y)"
  by (simp add: exactArithmetic_def)

lemma sample_delivered:
  assumes "exactArithmetic pf"
  shows "deliveredLiters (todayMetrics pf sampleSnapshot) = Fin 1500"
    and "deliveredOrders (todayMetrics pf sampleSnapshot) = 2"
proof -
  have a1: "numAdd pf (Fin 0) (Fin 1000) = Fin 1000"
    using exact_add [OF assms, of 0 1000] by (simp add: representable_sample)
  have a2: "numAdd pf (Fin 1000) (Fin 500) = Fin 1500"
    using exact_add [OF assms, of 1000 500] by (simp add: representable_sample)
  have "deliveredLiters (todayMetrics pf sampleSnapshot) =
          foldl (numAdd pf) (Fin 0)
            (map docLiters (filter (\<lambda>data. docStatus data = Some DELIVERED) sampleSnapshot))"
    by (simp add: todayMetrics_def foldl_deliveredLiters createEmptyMetrics_def)
  also have "\<dots> = Fin 1500"
    by (simp add: sampleSnapshot_def a1 a2)
  finally show "deliveredLiters (todayMetrics pf sampleSnapshot) = Fin 1500" .
  have "deliveredOrders (todayMetrics pf sampleSnapshot) =
          length (filter (\<lambda>data. docStatus data = Some DELIVERED) sampleSnapshot)"
    by (simp add: todayMetrics_def foldl_deliveredOrders createEmptyMetrics_def)
  also have "\<dots> = 2"
    by (simp add: sampleSnapshot_def)
  finally show "deliveredOrders (todayMetrics pf sampleSnapshot) = 2" .
qed

lemma sample_revenue:
  assumes "exactArithmetic pf"
  shows "deliveredRevenueToday pf (todayMetrics pf sampleSnapshot) (Fin 250) (Fin 20) = Fin 415"
proof -
  have d: "numDiv pf (Fin 1500) (Fin 1000) = Fin (3 / 2)"
    using exact_div [OF assms, of 1500 1000] by (simp add: representable_sample)
  have m1: "numMul pf (Fin (3 / 2)) (Fin 250) = Fin 375"
    using exact_mul [OF assms, of "3 / 2" 250] by (simp add: representable_sample)
  have m2: "numMul pf (Fin 20) (Fin 2) = Fin 40"
    using exact_mul [OF assms, of 20 2] by (simp add: representable_sample)
  have a: "numAdd pf (Fin 375) (Fin 40) = Fin 415"
    using exact_add [OF assms, of 375 40] by (simp add: representable_sample)
  show ?thesis
    by (simp add: deliveredRevenueToday_def Let_def orZero_def sample_delivered [OF assms]
          d m1 m2 a)
qed

text \<open>
  Claim C4. For every snapshot the dashboard effect starts from the empty metrics and
  yields the number of documents, the sum of their litres, for each of the five states
  the number of documents in it, the number of delivered documents and the sum of their
  litres; the sums are accumulated with the platform's addition in the order of the
  snapshot. The delivered revenue is (delivered litres / 1000) * price per 1000 +
  delivery fee * delivered orders, computed with the platform's operations, when the
  price per 1000 is positive, and zero otherwise. For three pending orders of 100, 200
  and 50 litres and two delivered ones of 1000 and 500 litres, with price 250 and fee
  20, the delivered litres are 1500, the delivered orders 2 and the revenue 415; this
  holds for every arithmetic that returns the exact result whenever that result is
  representable, as the arithmetic of doubles does.
\<close>

theorem todayMetrics_fold:
  "total (todayMetrics pf snapshot) = length snapshot \<and>
   totalLiters (todayMetrics pf snapshot) = foldl (numAdd pf) (Fin 0) (map docLiters snapshot) \<and>
   (\<forall>st. byStatus (todayMetrics pf snapshot) st =
           length (filter (\<lambda>data. docStatus data = Some st) snapshot)) \<and>
   deliveredOrders (todayMetrics pf snapshot) =
     length (filter (\<lambda>data. docStatus data = Some DELIVERED) snapshot) \<and>
   deliveredLiters (todayMetrics pf snapshot) =
     foldl (numAdd pf) (Fin 0)
       (map docLiters (filter (\<lambda>data. docStatus data = Some DELIVERED) snapshot)) \<and>
   deliveredRevenueToday pf (todayMetrics pf snapshot) pricePer1000 deliveryFee =
     (if positive pricePer1000 then
        numAdd pf
          (numMul pf (numDiv pf (deliveredLiters (todayMetrics pf snapshot)) (Fin 1000))
             pricePer1000)
          (numMul pf (orZero deliveryFee)
             (Fin (of_nat (deliveredOrders (todayMetrics pf snapshot)))))
      else Fin 0) \<and>
   (exactArithmetic pf \<longrightarrow>
      deliveredLiters (todayMetrics pf sampleSnapshot) = Fin 1500 \<and>
      deliveredOrders (todayMetrics pf sampleSnapshot) = 2 \<and>
      deliveredRevenueToday pf (todayMetrics pf sampleSnapshot) (Fin 250) (Fin 20) = Fin 415)"
proof -
  have t: "total (todayMetrics pf snapshot) = length snapshot"
    by (simp add: todayMetrics_def foldl_total createEmptyMetrics_def)
  have l: "totalLiters (todayMetrics pf snapshot) =
             foldl (numAdd pf) (Fin 0) (map docLiters snapshot)"
    by (simp add: todayMetrics_def foldl_totalLiters createEmptyMetrics_def)
  have b: "\<forall>st. byStatus (todayMetrics pf snapshot) st =
           length (filter (\<lambda>data. docStatus data = Some st) snapshot)"
    by (simp add: todayMetrics_def foldl_byStatus createEmptyMetrics_def)
  have dn: "deliveredOrders (todayMetrics pf snapshot) =
     length (filter (\<lambda>data. docStatus data = Some DELIVERED) snapshot)"
    by (simp add: todayMetrics_def foldl_deliveredOrders createEmptyMetrics_def)
  have dq: "deliveredLiters (todayMetrics pf snapshot) =
     foldl (numAdd pf) (Fin 0)
       (map docLiters (filter (\<lambda>data. docStatus data = Some DELIVERED) snapshot))"
    by (simp add: todayMetrics_def foldl_deliveredLiters createEmptyMetrics_def)
  have r: "deliveredRevenueToday pf (todayMetrics pf snapshot) pricePer1000 deliveryFee =
     (if positive pricePer1000 then
        numAdd pf
          (numMul pf (numDiv pf (deliveredLiters (todayMetrics pf snapshot)) (Fin 1000))
             pricePer1000)
          (numMul pf (orZero deliveryFee)
             (Fin (of_nat (deliveredOrders (todayMetrics pf snapshot)))))
      else Fin 0)"
    by (simp add: deliveredRevenueToday_def Let_def positive_orZero orZero_positive)
  have e: "exactArithmetic pf \<longrightarrow>
      deliveredLiters (todayMetrics pf sampleSnapshot) = Fin 1500 \<and>
      deliveredOrders (todayMetrics pf sampleSnapshot) = 2 \<and>
      deliveredRevenueToday pf (todayMetrics pf sampleSnapshot) (Fin 250) (Fin 20) = Fin 415"
    using sample_delivered sample_revenue by blast
  from t l b dn dq r e show ?thesis by blast
qed

lemma exactArithmetic_sample: "exactArithmetic samplePlatform"
  by (simp add: exactArithmetic_def samplePlatform_def)

theorem todayMetrics_fold_witness:
  "total (todayMetrics samplePlatform sampleSnapshot) = 5 \<and>
   totalLiters (todayMetrics samplePlatform sampleSnapshot) = Fin 1850 \<and>
   byStatus (todayMetrics samplePlatform sampleSnapshot) PENDING = 3 \<and>
   byStatus (todayMetrics samplePlatform sampleSnapshot) DELIVERED = 2 \<and>
   byStatus (todayMetrics samplePlatform sampleSnapshot) CANCELLED = 0 \<and>
   deliveredLiters (todayMetrics samplePlatform sampleSnapshot) = Fin 1500 \<and>
   deliveredOrders (todayMetrics samplePlatform sampleSnapshot) = 2 \<and>
   deliveredRevenueToday samplePlatform (todayMetrics samplePlatform sampleSnapshot)
     (Fin 250) (Fin 20) = Fin 415 \<and>
   deliveredRevenueToday samplePlatform (todayMetrics samplePlatform sampleSnapshot)
     (Fin 0) (Fin 20) = Fin 0"
proof -
  note f = todayMetrics_fold [of samplePlatform sampleSnapshot]
  have a: "total (todayMetrics samplePlatform sampleSnapshot) = 5 \<and>
   totalLiters (todayMetrics samplePlatform sampleSnapshot) = Fin 1850 \<and>
   byStatus (todayMetrics samplePlatform sampleSnapshot) PENDING = 3 \<and>
   byStatus (todayMetrics samplePlatform sampleSnapshot) DELIVERED = 2 \<and>
   byStatus (todayMetrics samplePlatform sampleSnapshot) CANCELLED = 0"
    using f [of "Fin 0" "Fin 20"] by (simp add: sampleSnapshot_def samplePlatform_def)
  have b: "deliveredLiters (todayMetrics samplePlatform sampleSnapshot) = Fin 1500 \<and>
   deliveredOrders (todayMetrics samplePlatform sampleSnapshot) = 2 \<and>
   deliveredRevenueToday samplePlatform (todayMetrics samplePlatform sampleSnapshot)
     (Fin 250) (Fin 20) = Fin 415"
    using f [of "Fin 250" "Fin 20"] exactArithmetic_sample by blast
  have c: "deliveredRevenueToday samplePlatform (todayMetrics samplePlatform sampleSnapshot)
     (Fin 0) (Fin 20) = Fin 0"
    using f [of "Fin 0" "Fin 20"] by simp
  from a b c show ?thesis by blast
qed

end
